theory Spec2Isabelle
  imports Main
begin

section \<open>The subscription routes of wakapi (routes/subscription.go)\<close>

text \<open>
  The file holds the HTTP handlers of the subscription feature: checkout, billing portal,
  the Stripe webhook and two confirmation redirects. A handler reads the request and the
  configuration, calls library and provider functions, and answers through the response
  writer. The embedding makes this explicit:
  \<^item> the functions of other packages that a handler calls (form parsing, JSON decoding,
    the signature check and the Stripe API) are the fields of a record \<open>deps\<close>, so that
    every theorem holds for whatever they return;
  \<^item> a handler returns the list of the calls it made, in order (its trace), together with
    the way it ended: by returning, or by a nil-pointer panic;
  \<^item> a call on the response writer (\<open>http.Redirect\<close>, \<open>w.WriteHeader\<close>) is an entry of
    the trace like any other call.
\<close>

subsection \<open>Data\<close>

type_synonym error = string

text \<open>\<open>models.User\<close>: the handlers read the e-mail address only.\<close>

record User =
  Email :: string

text \<open>The parts of \<open>conf.Config\<close> that the handlers read. \<open>IsDev\<close> is the result of the
  method \<open>config.IsDev()\<close>.\<close>

record ServerConfig =
  BasePath :: string
  PublicUrl :: string

record SubscriptionsConfig =
  StandardPriceId :: string
  StripeEndpointSecret :: string

record Config =
  Server :: ServerConfig
  Subscriptions :: SubscriptionsConfig
  IsDev :: bool

record SubscriptionHandler =
  config :: Config

text \<open>A request body is a stream: the bytes it delivers, then end of file (\<open>None\<close>) or a
  read error.\<close>

record ReadCloser =
  Bytes :: string
  ReadErr :: "error option"

text \<open>\<open>http.Request\<close>. \<open>Principal\<close> is what \<open>middlewares.GetPrincipal(r)\<close> returns: a pointer,
  nil (\<open>None\<close>) when no user is attached to the request.\<close>

record Request =
  Principal :: "User option"
  Header :: "string \<rightharpoonup> string"
  Body :: ReadCloser

text \<open>The types of stripe-go that the handlers touch. \<open>Event.Data\<close> and
  \<open>Subscription.Customer\<close> are pointers in stripe-go (\<open>*EventData\<close>, \<open>*Customer\<close>): a JSON
  document without the field decodes to nil, here \<open>None\<close>.\<close>

record Customer =
  Customer_ID :: string
  Customer_Email :: string

record Subscription =
  Subscription_ID :: string
  Subscription_Customer :: "Customer option"

record EventData =
  Raw :: string

record Event =
  Event_Type :: string
  Event_Data :: "EventData option"

record CheckoutSessionLineItemParams =
  Price :: string
  Quantity :: int

record CheckoutSessionParams =
  Mode :: string
  LineItems :: "CheckoutSessionLineItemParams list"
  CustomerEmail :: string
  ClientReferenceID :: string
  SuccessURL :: string
  CancelURL :: string

record BillingPortalSessionParams =
  PortalCustomer :: string
  ReturnURL :: string

text \<open>A checkout session or a portal session: the handlers read its URL.\<close>

record Session =
  URL :: string

text \<open>\<open>stripe.SearchIter\<close> after the search request: the error of the request, if any, and
  the customers still to be delivered.\<close>

record SearchIter =
  Iter_err :: "error option"
  Iter_values :: "Customer list"

subsection \<open>Functions of other packages\<close>

record deps =
  ParseForm :: "Request \<Rightarrow> error option"
  json_Unmarshal :: "string \<Rightarrow> error + Subscription"
  webhook_ConstructEventWithOptions :: "string \<Rightarrow> string \<Rightarrow> string \<Rightarrow> bool \<Rightarrow> error + Event"
  stripeCheckoutSession_New :: "CheckoutSessionParams \<Rightarrow> error + Session"
  stripePortalSession_New :: "BillingPortalSessionParams \<Rightarrow> error + Session"
  stripeCustomer_Get :: "string \<Rightarrow> error + Customer"
  stripeCustomer_Search :: "string \<Rightarrow> SearchIter"

subsection \<open>Traces\<close>

text \<open>
  One entry for each call a handler makes outside itself. A log entry keeps the format
  string and the arguments as the source passes them. \<open>ConstructEvent payload header secret\<close>
  is the signature check, \<open>JsonUnmarshal raw\<close> the decoding of the event's object.
\<close>

datatype effect =
    LoadTemplates
  | LogError string "string list"
  | LogInfo string "string list"
  | LogWarn string "string list"
  | ConstructEvent string string string
  | JsonUnmarshal string
  | CheckoutSessionNew CheckoutSessionParams
  | PortalSessionNew BillingPortalSessionParams
  | CustomerGet string
  | CustomerSearch string
  | Redirect string nat
  | WriteHeader nat

datatype completion = Returned | Panicked

type_synonym run = "effect list \<times> completion"

text \<open>The result of a function that returns a value and an error, or dereferences nil.\<close>

datatype 'a go_result = Ok 'a | Err error | NilDeref

abbreviation StatusOK :: nat where "StatusOK \<equiv> 200"
abbreviation StatusFound :: nat where "StatusFound \<equiv> 302"
abbreviation StatusSeeOther :: nat where "StatusSeeOther \<equiv> 303"
abbreviation StatusBadRequest :: nat where "StatusBadRequest \<equiv> 400"
abbreviation StatusServiceUnavailable :: nat where "StatusServiceUnavailable \<equiv> 503"

subsection \<open>Library functions with a fixed meaning\<close>

text \<open>\<open>fmt.Sprintf\<close> for the verb \<open>%s\<close>, the only one in the formats of the URLs and of the
  search query: each \<open>%s\<close> is replaced by the next argument.\<close>

fun Sprintf :: "string \<Rightarrow> string list \<Rightarrow> string" where
  "Sprintf [] args = []"
| "Sprintf [c] args = [c]"
| "Sprintf (c # d # f) args =
     (if c = CHR ''%'' \<and> d = CHR ''s''
      then (case args of
              a # rest \<Rightarrow> a @ Sprintf f rest
            | [] \<Rightarrow> ''%!s(MISSING)'' @ Sprintf f [])
      else c # Sprintf (d # f) args)"

text \<open>\<open>http.MaxBytesReader\<close>: a body of more than \<open>n\<close> bytes delivers \<open>n\<close> bytes and then
  fails. \<open>ioutil.ReadAll\<close> reads to the end of the stream and returns what it read with the
  error, if any.\<close>

definition MaxBytesReader :: "nat \<Rightarrow> ReadCloser \<Rightarrow> ReadCloser" where
  "MaxBytesReader n b =
     (if n < length (Bytes b)
      then \<lparr>Bytes = take n (Bytes b), ReadErr = Some ''http: request body too large''\<rparr>
      else b)"

definition ReadAll :: "ReadCloser \<Rightarrow> string \<times> error option" where
  "ReadAll b = (Bytes b, ReadErr b)"

text \<open>\<open>r.Header.Get\<close>: the empty string for a header that is absent.\<close>

definition Header_Get :: "Request \<Rightarrow> string \<Rightarrow> string" where
  "Header_Get r k = (case Header r k of None \<Rightarrow> [] | Some v \<Rightarrow> v)"

text \<open>\<open>results.Next()\<close> followed by \<open>results.Customer()\<close>: the first customer still to be
  delivered, and the iterator advanced past it.\<close>

definition Iter_Next :: "SearchIter \<Rightarrow> (Customer \<times> SearchIter) option" where
  "Iter_Next it =
     (case Iter_values it of
        [] \<Rightarrow> None
      | c # cs \<Rightarrow> Some (c, it\<lparr>Iter_values := cs\<rparr>))"

subsection \<open>The handlers\<close>

definition settings_error_format :: string where
  "settings_error_format = ''%s/settings?error=%s#subscription''"

definition dev_templates :: "SubscriptionHandler \<Rightarrow> effect list" where
  "dev_templates h = (if IsDev (config h) then [LoadTemplates] else [])"

definition PostCheckout :: "deps \<Rightarrow> SubscriptionHandler \<Rightarrow> Request \<Rightarrow> run" where
  "PostCheckout X h r =
     (let t0 = dev_templates h in
      case Principal r of
        None \<Rightarrow> (t0, Panicked)
      | Some user \<Rightarrow>
          if Email user = []
          then (t0 @ [Redirect (Sprintf settings_error_format
                         [BasePath (Server (config h)), ''missing e-mail address'']) StatusFound],
                Returned)
          else
            (case ParseForm X r of
               Some err \<Rightarrow>
                 (t0 @ [Redirect (Sprintf settings_error_format
                          [BasePath (Server (config h)), ''missing form values'']) StatusFound],
                  Returned)
             | None \<Rightarrow>
                 (let checkoutParams =
                        \<lparr>Mode = ''subscription'',
                         LineItems =
                           [\<lparr>Price = StandardPriceId (Subscriptions (config h)), Quantity = 1\<rparr>],
                         CustomerEmail = Email user,
                         ClientReferenceID = Email user,
                         SuccessURL = Sprintf ''%s%s/subscription/success''
                           [PublicUrl (Server (config h)), BasePath (Server (config h))],
                         CancelURL = Sprintf ''%s%s/subscription/cancel''
                           [PublicUrl (Server (config h)), BasePath (Server (config h))]\<rparr>
                  in case stripeCheckoutSession_New X checkoutParams of
                       Inl err \<Rightarrow>
                         (t0 @ [CheckoutSessionNew checkoutParams,
                                LogError ''failed to create stripe checkout session: %v'' [err],
                                Redirect (Sprintf settings_error_format
                                  [BasePath (Server (config h)), ''something went wrong''])
                                  StatusFound],
                          Returned)
                     | Inr session \<Rightarrow>
                         (t0 @ [CheckoutSessionNew checkoutParams,
                                Redirect (URL session) StatusSeeOther],
                          Returned))))"

definition findStripeCustomerByEmail :: "deps \<Rightarrow> string \<Rightarrow> effect list \<times> (error + Customer)" where
  "findStripeCustomerByEmail X email =
     (let params = Sprintf (''email:'' @ [CHR 0x22] @ ''%s'' @ [CHR 0x22]) [email];
          results = stripeCustomer_Search X params
      in case Iter_err results of
           Some err \<Rightarrow> ([CustomerSearch params], Inl err)
         | None \<Rightarrow>
             (case Iter_Next results of
                Some (customer, results') \<Rightarrow> ([CustomerSearch params], Inr customer)
              | None \<Rightarrow> ([CustomerSearch params], Inl ''no customer found with given criteria'')))"

definition PostPortal :: "deps \<Rightarrow> SubscriptionHandler \<Rightarrow> Request \<Rightarrow> run" where
  "PostPortal X h r =
     (let t0 = dev_templates h in
      case Principal r of
        None \<Rightarrow> (t0, Panicked)
      | Some user \<Rightarrow>
          if Email user = []
          then (t0 @ [Redirect (Sprintf settings_error_format
                         [BasePath (Server (config h)),
                          ''no subscription found with your e-mail address, please contact us!''])
                         StatusFound],
                Returned)
          else
            (case findStripeCustomerByEmail X (Email user) of
               (t1, Inl err) \<Rightarrow>
                 (t0 @ t1 @ [Redirect (Sprintf settings_error_format
                         [BasePath (Server (config h)),
                          ''no subscription found with your e-mail address, please contact us!''])
                         StatusFound],
                  Returned)
             | (t1, Inr customer) \<Rightarrow>
                 (let portalParams =
                        \<lparr>PortalCustomer = Customer_ID customer,
                         ReturnURL = PublicUrl (Server (config h))\<rparr>
                  in case stripePortalSession_New X portalParams of
                       Inl err \<Rightarrow>
                         (t0 @ t1 @ [PortalSessionNew portalParams,
                                LogError ''failed to create stripe portal session: %v'' [err],
                                Redirect (Sprintf settings_error_format
                                  [BasePath (Server (config h)), ''something went wrong''])
                                  StatusFound],
                          Returned)
                     | Inr session \<Rightarrow>
                         (t0 @ t1 @ [PortalSessionNew portalParams,
                                Redirect (URL session) StatusSeeOther],
                          Returned))))"

definition handleParseSubscription ::
    "deps \<Rightarrow> Event \<Rightarrow> effect list \<times> (Subscription \<times> Customer) go_result" where
  "handleParseSubscription X event =
     (case Event_Data event of
        None \<Rightarrow> ([], NilDeref)
      | Some d \<Rightarrow>
          (case json_Unmarshal X (Raw d) of
             Inl err \<Rightarrow>
               ([JsonUnmarshal (Raw d),
                 LogError ''failed to parse stripe webhook payload: %v'' [err],
                 WriteHeader StatusBadRequest],
                Err err)
           | Inr subscription \<Rightarrow>
               (case Subscription_Customer subscription of
                  None \<Rightarrow> ([JsonUnmarshal (Raw d)], NilDeref)
                | Some c \<Rightarrow>
                    (case stripeCustomer_Get X (Customer_ID c) of
                       Inl err \<Rightarrow>
                         ([JsonUnmarshal (Raw d),
                           CustomerGet (Customer_ID c),
                           LogError ''failed to fetch stripe customer (%s): %v''
                             [Customer_ID c, err],
                           WriteHeader StatusBadRequest],
                          Err err)
                     | Inr customer \<Rightarrow>
                         ([JsonUnmarshal (Raw d),
                           CustomerGet (Customer_ID c),
                           LogInfo ''associated stripe customer %s with user %s''
                             [Customer_ID customer, Customer_Email customer]],
                          Ok (subscription, customer))))))"

definition recognized_type :: "string \<Rightarrow> bool" where
  "recognized_type ty \<longleftrightarrow>
     ty = ''customer.subscription.deleted'' \<or>
     ty = ''customer.subscription.updated'' \<or>
     ty = ''customer.subscription.created''"

definition PostWebhook :: "deps \<Rightarrow> SubscriptionHandler \<Rightarrow> Request \<Rightarrow> run" where
  "PostWebhook X h r =
     (let bodyReader = MaxBytesReader 65536 (Body r) in
      case ReadAll bodyReader of
        (payload, Some err) \<Rightarrow>
          ([LogError ''error in stripe webhook request: %v'' [err],
            WriteHeader StatusServiceUnavailable],
           Returned)
      | (payload, None) \<Rightarrow>
          (let signature = Header_Get r ''Stripe-Signature'';
               secret = StripeEndpointSecret (Subscriptions (config h));
               t1 = [ConstructEvent payload signature secret]
           in case webhook_ConstructEventWithOptions X payload signature secret True of
                Inl err \<Rightarrow>
                  (t1 @ [LogError ''stripe webhook signature verification failed: %v'' [err],
                         WriteHeader StatusBadRequest],
                   Returned)
              | Inr event \<Rightarrow>
                  if recognized_type (Event_Type event)
                  then
                    (case handleParseSubscription X event of
                       (t2, Err err) \<Rightarrow> (t1 @ t2, Returned)
                     | (t2, NilDeref) \<Rightarrow> (t1 @ t2, Panicked)
                     | (t2, Ok (subscription, customer)) \<Rightarrow>
                         (t1 @ t2 @
                          [LogInfo ''received stripe subscription event of type '%s' for subscription '%d' (customer '%s' with email '%s').''
                             [Event_Type event, Subscription_ID subscription,
                              Customer_ID customer, Customer_Email customer],
                           WriteHeader StatusOK],
                          Returned))
                  else
                    (t1 @ [LogWarn ''got stripe event '%s' with no handler defined''
                             [Event_Type event],
                           WriteHeader StatusOK],
                     Returned)))"

definition GetCheckoutSuccess :: "SubscriptionHandler \<Rightarrow> Request \<Rightarrow> run" where
  "GetCheckoutSuccess h r =
     ([Redirect (Sprintf ''%s/settings?success=%s#subscription''
                   [BasePath (Server (config h)), ''you have successfully subscribed to Wakapi!''])
         StatusFound],
      Returned)"

definition GetCheckoutCancel :: "SubscriptionHandler \<Rightarrow> Request \<Rightarrow> run" where
  "GetCheckoutCancel h r =
     ([Redirect (Sprintf ''%s/settings#subscription'' [BasePath (Server (config h))])
         StatusFound],
      Returned)"

subsection \<open>Reading a trace\<close>

text \<open>The status code of the response: that of the first call on the response writer
  (a later \<open>WriteHeader\<close> is ignored by \<open>net/http\<close>). \<open>None\<close>: the handler wrote nothing.\<close>

fun status_of :: "effect list \<Rightarrow> nat option" where
  "status_of [] = None"
| "status_of (Redirect u c # t) = Some c"
| "status_of (WriteHeader c # t) = Some c"
| "status_of (e # t) = status_of t"

text \<open>The URL handed to \<open>http.Redirect\<close>, when the response is a redirect.\<close>

fun location_of :: "effect list \<Rightarrow> string option" where
  "location_of [] = None"
| "location_of (Redirect u c # t) = Some u"
| "location_of (WriteHeader c # t) = None"
| "location_of (e # t) = location_of t"

text \<open>The requests sent to the billing provider.\<close>

fun is_provider_call :: "effect \<Rightarrow> bool" where
  "is_provider_call (CheckoutSessionNew p) = True"
| "is_provider_call (PortalSessionNew p) = True"
| "is_provider_call (CustomerGet i) = True"
| "is_provider_call (CustomerSearch q) = True"
| "is_provider_call e = False"

fun is_signature_check :: "effect \<Rightarrow> bool" where
  "is_signature_check (ConstructEvent p s k) = True"
| "is_signature_check e = False"

fun is_json_parse :: "effect \<Rightarrow> bool" where
  "is_json_parse (JsonUnmarshal raw) = True"
| "is_json_parse e = False"

text \<open>The line that \<open>handleParseSubscription\<close> logs once the customer is fetched.\<close>

fun is_association_line :: "effect \<Rightarrow> bool" where
  "is_association_line (LogInfo f args) = (f = ''associated stripe customer %s with user %s'')"
| "is_association_line e = False"

text \<open>A URL has a query part when it contains a question mark.\<close>

definition has_query :: "string \<Rightarrow> bool" where
  "has_query url \<longleftrightarrow> CHR ''?'' \<in> set url"

subsection \<open>Example inputs\<close>

definition quoted :: "string \<Rightarrow> string" where
  "quoted s = CHR 0x22 # s @ [CHR 0x22]"

definition example_handler :: "string \<Rightarrow> SubscriptionHandler" where
  "example_handler base =
     \<lparr>config = \<lparr>Server = \<lparr>BasePath = base, PublicUrl = ''https://x.test''\<rparr>,
                Subscriptions = \<lparr>StandardPriceId = ''price_123'',
                                 StripeEndpointSecret = ''whsec_test''\<rparr>,
                IsDev = False\<rparr>\<rparr>"

definition example_request :: "string \<Rightarrow> string \<Rightarrow> Request" where
  "example_request email body =
     \<lparr>Principal = Some \<lparr>Email = email\<rparr>,
      Header = [''Stripe-Signature'' \<mapsto> ''t=1,v1=5257a869''],
      Body = \<lparr>Bytes = body, ReadErr = None\<rparr>\<rparr>"

text \<open>The JSON text of a subscription object and of an event that carries it.\<close>

definition example_object :: "string \<Rightarrow> string" where
  "example_object customer =
     ''{'' @ quoted ''id'' @ '':'' @ quoted ''sub_1'' @ customer @ ''}''"

definition example_payload :: "string \<Rightarrow> string \<Rightarrow> string" where
  "example_payload ty obj =
     ''{'' @ quoted ''type'' @ '':'' @ quoted ty @ '','' @
     quoted ''data'' @ '':{'' @ quoted ''object'' @ '':'' @ obj @ ''}}''"

definition example_customer :: "string \<Rightarrow> Customer" where
  "example_customer i = \<lparr>Customer_ID = i, Customer_Email = ''a@b.com''\<rparr>"

definition example_subscription :: Subscription where
  "example_subscription =
     \<lparr>Subscription_ID = ''sub_1'',
      Subscription_Customer = Some \<lparr>Customer_ID = ''cus_1'', Customer_Email = []\<rparr>\<rparr>"

text \<open>A provider for the examples. The signature check accepts one payload, the event of
  type \<open>ty\<close> with the object \<open>obj\<close>, under the header and the secret of the examples; the
  object decodes to \<open>sub\<close>; every call on the Stripe API succeeds, and the customer search
  finds two customers.\<close>

definition example_deps :: "string \<Rightarrow> string \<Rightarrow> Subscription \<Rightarrow> deps" where
  "example_deps ty obj sub =
     \<lparr>ParseForm = (\<lambda>r. None),
      json_Unmarshal =
        (\<lambda>raw. if raw = obj then Inr sub else Inl ''unexpected end of JSON input''),
      webhook_ConstructEventWithOptions =
        (\<lambda>payload header secret ignore.
           if payload = example_payload ty obj \<and> header = ''t=1,v1=5257a869''
              \<and> secret = ''whsec_test''
           then Inr \<lparr>Event_Type = ty, Event_Data = Some \<lparr>Raw = obj\<rparr>\<rparr>
           else Inl ''webhook had no valid signature''),
      stripeCheckoutSession_New =
        (\<lambda>p. Inr \<lparr>URL = ''https://checkout.stripe.test/c/pay/cs_1''\<rparr>),
      stripePortalSession_New =
        (\<lambda>p. Inr \<lparr>URL = ''https://billing.stripe.test/p/session/bps_1''\<rparr>),
      stripeCustomer_Get = (\<lambda>i. Inr (example_customer i)),
      stripeCustomer_Search =
        (\<lambda>q. \<lparr>Iter_err = None,
              Iter_values = [example_customer ''cus_1'', example_customer ''cus_2'']\<rparr>)\<rparr>"

section \<open>Properties\<close>

subsection \<open>Auxiliary facts\<close>

lemma read_within_cap:
  "length (Bytes b) \<le> 65536 \<Longrightarrow> ReadAll (MaxBytesReader 65536 b) = (Bytes b, ReadErr b)"
  by (simp add: ReadAll_def MaxBytesReader_def)

lemma read_over_cap:
  "65536 < length (Bytes b) \<Longrightarrow>
   ReadAll (MaxBytesReader 65536 b) =
     (take 65536 (Bytes b), Some ''http: request body too large'')"
  by (simp add: ReadAll_def MaxBytesReader_def)

lemma dev_templates_no_provider_call: "filter is_provider_call (dev_templates h) = []"
  by (simp add: dev_templates_def)

subsection \<open>The webhook: rejected requests\<close>

text \<open>
  Claim C1. When the body was read within the size cap and the check of the
  \<open>Stripe-Signature\<close> header against the configured endpoint secret returns an error,
  \<open>PostWebhook\<close> makes the check, logs one error line and answers 400, and does nothing
  else: the status of the response is 400 and no request goes to the provider, so no
  customer is fetched.
\<close>

theorem PostWebhook_invalid_signature:
  assumes "length (Bytes (Body r)) \<le> 65536" and "ReadErr (Body r) = None"
    and "webhook_ConstructEventWithOptions X (Bytes (Body r)) (Header_Get r ''Stripe-Signature'')
           (StripeEndpointSecret (Subscriptions (config h))) True = Inl err"
  shows "PostWebhook X h r =
           ([ConstructEvent (Bytes (Body r)) (Header_Get r ''Stripe-Signature'')
               (StripeEndpointSecret (Subscriptions (config h))),
             LogError ''stripe webhook signature verification failed: %v'' [err],
             WriteHeader StatusBadRequest],
            Returned)
         \<and> status_of (fst (PostWebhook X h r)) = Some 400
         \<and> filter is_provider_call (fst (PostWebhook X h r)) = []"
proof -
  have rd: "ReadAll (MaxBytesReader 65536 (Body r)) = (Bytes (Body r), None)"
    using assms(1,2) by (simp add: read_within_cap)
  have run: "PostWebhook X h r =
           ([ConstructEvent (Bytes (Body r)) (Header_Get r ''Stripe-Signature'')
               (StripeEndpointSecret (Subscriptions (config h))),
             LogError ''stripe webhook signature verification failed: %v'' [err],
             WriteHeader StatusBadRequest],
            Returned)"
    using assms(3) by (simp add: PostWebhook_def rd)
  show ?thesis
    unfolding run by simp
qed

text \<open>The theorem at a request whose signature the example provider refuses.\<close>

theorem PostWebhook_invalid_signature_witness:
  "length (Bytes (Body (example_request [] ''{}''))) \<le> 65536
   \<and> ReadErr (Body (example_request [] ''{}'')) = None
   \<and> webhook_ConstructEventWithOptions (example_deps [] [] example_subscription) ''{}''
        ''t=1,v1=5257a869'' ''whsec_test'' True = Inl ''webhook had no valid signature''
   \<and> PostWebhook (example_deps [] [] example_subscription) (example_handler [])
        (example_request [] ''{}'') =
       ([ConstructEvent ''{}'' ''t=1,v1=5257a869'' ''whsec_test'',
         LogError ''stripe webhook signature verification failed: %v''
           [''webhook had no valid signature''],
         WriteHeader 400], Returned)"
proof -
  let ?X = "example_deps [] [] example_subscription"
  let ?h = "example_handler []"
  let ?r = "example_request [] ''{}''"
  have a: "length (Bytes (Body ?r)) \<le> 65536"
    by (simp add: example_request_def)
  have b: "ReadErr (Body ?r) = None"
    by (simp add: example_request_def)
  have c: "webhook_ConstructEventWithOptions ?X (Bytes (Body ?r))
             (Header_Get ?r ''Stripe-Signature'')
             (StripeEndpointSecret (Subscriptions (config ?h))) True =
           Inl ''webhook had no valid signature''"
    by (simp add: example_request_def example_deps_def example_handler_def Header_Get_def
          example_payload_def quoted_def)
  have d: "Bytes (Body ?r) = ''{}''"
    "Header_Get ?r ''Stripe-Signature'' = ''t=1,v1=5257a869''"
    "StripeEndpointSecret (Subscriptions (config ?h)) = ''whsec_test''"
    by (simp_all add: example_request_def example_handler_def Header_Get_def)
  from PostWebhook_invalid_signature [OF a b c]
  have e: "PostWebhook ?X ?h ?r =
       ([ConstructEvent ''{}'' ''t=1,v1=5257a869'' ''whsec_test'',
         LogError ''stripe webhook signature verification failed: %v''
           [''webhook had no valid signature''],
         WriteHeader 400], Returned)"
    unfolding d by (rule conjunct1)
  from a b c [unfolded d] e show ?thesis
    by (intro conjI)
qed

text \<open>
  Claim C2. When the body is longer than 65536 bytes, reading it fails: \<open>PostWebhook\<close>
  logs the error and answers 503 (service unavailable), and the signature is never
  checked.
\<close>

theorem PostWebhook_oversized_body:
  assumes "65536 < length (Bytes (Body r))"
  shows "PostWebhook X h r =
           ([LogError ''error in stripe webhook request: %v'' [''http: request body too large''],
             WriteHeader StatusServiceUnavailable],
            Returned)
         \<and> status_of (fst (PostWebhook X h r)) = Some 503
         \<and> filter is_signature_check (fst (PostWebhook X h r)) = []"
proof -
  have run: "PostWebhook X h r =
           ([LogError ''error in stripe webhook request: %v'' [''http: request body too large''],
             WriteHeader StatusServiceUnavailable],
            Returned)"
    by (simp add: PostWebhook_def read_over_cap [OF assms])
  show ?thesis
    unfolding run by simp
qed

text \<open>The theorem at a body of 65537 bytes.\<close>

theorem PostWebhook_oversized_body_witness:
  "65536 < length (Bytes (Body (example_request [] (replicate 65537 (CHR ''a'')))))
   \<and> status_of (fst (PostWebhook (example_deps [] [] example_subscription) (example_handler [])
        (example_request [] (replicate 65537 (CHR ''a''))))) = Some 503
   \<and> filter is_signature_check
        (fst (PostWebhook (example_deps [] [] example_subscription) (example_handler [])
          (example_request [] (replicate 65537 (CHR ''a''))))) = []"
proof -
  have a: "65536 < length (Bytes (Body (example_request [] (replicate 65537 (CHR ''a'')))))"
    by (simp add: example_request_def)
  from PostWebhook_oversized_body [OF a] a show ?thesis
    by blast
qed

subsection \<open>The webhook: accepted requests\<close>

lemma handleParseSubscription_ok:
  assumes "Event_Data event = Some d" and "json_Unmarshal X (Raw d) = Inr subscription"
    and "Subscription_Customer subscription = Some c"
    and "stripeCustomer_Get X (Customer_ID c) = Inr customer"
  shows "handleParseSubscription X event =
           ([JsonUnmarshal (Raw d), CustomerGet (Customer_ID c),
             LogInfo ''associated stripe customer %s with user %s''
               [Customer_ID customer, Customer_Email customer]],
            Ok (subscription, customer))"
  using assms by (simp add: handleParseSubscription_def)

text \<open>The run of \<open>PostWebhook\<close> once the body is read and the signature verifies.\<close>

lemma PostWebhook_verified:
  assumes "length (Bytes (Body r)) \<le> 65536" and "ReadErr (Body r) = None"
    and "webhook_ConstructEventWithOptions X (Bytes (Body r)) (Header_Get r ''Stripe-Signature'')
           (StripeEndpointSecret (Subscriptions (config h))) True = Inr event"
  shows "PostWebhook X h r =
           (let t1 = [ConstructEvent (Bytes (Body r)) (Header_Get r ''Stripe-Signature'')
                        (StripeEndpointSecret (Subscriptions (config h)))]
            in if recognized_type (Event_Type event)
               then (case handleParseSubscription X event of
                       (t2, Err err) \<Rightarrow> (t1 @ t2, Returned)
                     | (t2, NilDeref) \<Rightarrow> (t1 @ t2, Panicked)
                     | (t2, Ok (subscription, customer)) \<Rightarrow>
                         (t1 @ t2 @
                          [LogInfo ''received stripe subscription event of type '%s' for subscription '%d' (customer '%s' with email '%s').''
                             [Event_Type event, Subscription_ID subscription,
                              Customer_ID customer, Customer_Email customer],
                           WriteHeader StatusOK],
                          Returned))
               else (t1 @ [LogWarn ''got stripe event '%s' with no handler defined''
                             [Event_Type event],
                           WriteHeader StatusOK],
                     Returned))"
proof -
  have rd: "ReadAll (MaxBytesReader 65536 (Body r)) = (Bytes (Body r), None)"
    using assms(1,2) by (simp add: read_within_cap)
  show ?thesis
    using assms(3) by (simp add: PostWebhook_def rd Let_def)
qed

lemma recognized_type_iff:
  "recognized_type ty \<longleftrightarrow>
     ty \<in> {''customer.subscription.created'', ''customer.subscription.updated'',
           ''customer.subscription.deleted''}"
  unfolding recognized_type_def by blast

text \<open>The status after a signature that verifies, in every case: \<open>None\<close> where the
  handler panics before it writes one.\<close>

lemma PostWebhook_verified_status:
  assumes "length (Bytes (Body r)) \<le> 65536" and "ReadErr (Body r) = None"
    and "webhook_ConstructEventWithOptions X (Bytes (Body r)) (Header_Get r ''Stripe-Signature'')
           (StripeEndpointSecret (Subscriptions (config h))) True = Inr event"
  shows "status_of (fst (PostWebhook X h r)) =
           (if recognized_type (Event_Type event)
            then (case Event_Data event of
                    None \<Rightarrow> None
                  | Some d \<Rightarrow>
                      (case json_Unmarshal X (Raw d) of
                         Inl err \<Rightarrow> Some 400
                       | Inr subscription \<Rightarrow>
                           (case Subscription_Customer subscription of
                              None \<Rightarrow> None
                            | Some c \<Rightarrow>
                                (case stripeCustomer_Get X (Customer_ID c) of
                                   Inl err \<Rightarrow> Some 400
                                 | Inr customer \<Rightarrow> Some 200))))
            else Some 200)"
  unfolding PostWebhook_verified [OF assms]
  by (simp add: handleParseSubscription_def split: option.split sum.split)

text \<open>
  Claim C5. For an event of type \<open>customer.subscription.created\<close>,
  \<open>customer.subscription.updated\<close> or \<open>customer.subscription.deleted\<close> whose object decodes
  to a subscription and whose customer is fetched with success, \<open>PostWebhook\<close> logs the
  association line exactly once and answers 200. Its run is the signature check, the
  decoding, one read of the customer at the provider, two log lines and the status: no
  call that writes anything.
\<close>

theorem PostWebhook_recognized_event:
  assumes "length (Bytes (Body r)) \<le> 65536" and "ReadErr (Body r) = None"
    and "webhook_ConstructEventWithOptions X (Bytes (Body r)) (Header_Get r ''Stripe-Signature'')
           (StripeEndpointSecret (Subscriptions (config h))) True = Inr event"
    and "Event_Type event \<in> {''customer.subscription.created'', ''customer.subscription.updated'',
           ''customer.subscription.deleted''}"
    and "Event_Data event = Some d" and "json_Unmarshal X (Raw d) = Inr subscription"
    and "Subscription_Customer subscription = Some c"
    and "stripeCustomer_Get X (Customer_ID c) = Inr customer"
  shows "PostWebhook X h r =
           ([ConstructEvent (Bytes (Body r)) (Header_Get r ''Stripe-Signature'')
               (StripeEndpointSecret (Subscriptions (config h))),
             JsonUnmarshal (Raw d),
             CustomerGet (Customer_ID c),
             LogInfo ''associated stripe customer %s with user %s''
               [Customer_ID customer, Customer_Email customer],
             LogInfo ''received stripe subscription event of type '%s' for subscription '%d' (customer '%s' with email '%s').''
               [Event_Type event, Subscription_ID subscription,
                Customer_ID customer, Customer_Email customer],
             WriteHeader StatusOK],
            Returned)
         \<and> length (filter is_association_line (fst (PostWebhook X h r))) = 1
         \<and> status_of (fst (PostWebhook X h r)) = Some 200"
proof -
  have ty: "recognized_type (Event_Type event)"
    using assms(4) recognized_type_iff [of "Event_Type event"] by blast
  have run: "PostWebhook X h r =
           ([ConstructEvent (Bytes (Body r)) (Header_Get r ''Stripe-Signature'')
               (StripeEndpointSecret (Subscriptions (config h))),
             JsonUnmarshal (Raw d),
             CustomerGet (Customer_ID c),
             LogInfo ''associated stripe customer %s with user %s''
               [Customer_ID customer, Customer_Email customer],
             LogInfo ''received stripe subscription event of type '%s' for subscription '%d' (customer '%s' with email '%s').''
               [Event_Type event, Subscription_ID subscription,
                Customer_ID customer, Customer_Email customer],
             WriteHeader StatusOK],
            Returned)"
    unfolding PostWebhook_verified [OF assms(1-3)]
    by (simp add: ty handleParseSubscription_ok [OF assms(5-8)])
  show ?thesis
    unfolding run by simp
qed

text \<open>The theorem at an event of type \<open>customer.subscription.updated\<close>.\<close>

theorem PostWebhook_recognized_event_witness:
  "length (Bytes (Body (example_request []
      (example_payload ''customer.subscription.updated'' (example_object []))))) \<le> 65536
   \<and> webhook_ConstructEventWithOptions
        (example_deps ''customer.subscription.updated'' (example_object []) example_subscription)
        (example_payload ''customer.subscription.updated'' (example_object []))
        ''t=1,v1=5257a869'' ''whsec_test'' True =
       Inr \<lparr>Event_Type = ''customer.subscription.updated'',
            Event_Data = Some \<lparr>Raw = example_object []\<rparr>\<rparr>
   \<and> length (filter is_association_line
        (fst (PostWebhook
          (example_deps ''customer.subscription.updated'' (example_object []) example_subscription)
          (example_handler [])
          (example_request []
            (example_payload ''customer.subscription.updated'' (example_object [])))))) = 1
   \<and> status_of
        (fst (PostWebhook
          (example_deps ''customer.subscription.updated'' (example_object []) example_subscription)
          (example_handler [])
          (example_request []
            (example_payload ''customer.subscription.updated'' (example_object []))))) = Some 200"
proof -
  let ?ty = "''customer.subscription.updated''"
  let ?X = "example_deps ?ty (example_object []) example_subscription"
  let ?h = "example_handler []"
  let ?r = "example_request [] (example_payload ?ty (example_object []))"
  let ?event = "\<lparr>Event_Type = ?ty, Event_Data = Some \<lparr>Raw = example_object []\<rparr>\<rparr>"
  have a: "length (Bytes (Body ?r)) \<le> 65536"
    by (simp add: example_request_def example_payload_def example_object_def quoted_def)
  have b: "ReadErr (Body ?r) = None"
    by (simp add: example_request_def)
  have d: "Bytes (Body ?r) = example_payload ?ty (example_object [])"
    "Header_Get ?r ''Stripe-Signature'' = ''t=1,v1=5257a869''"
    "StripeEndpointSecret (Subscriptions (config ?h)) = ''whsec_test''"
    by (simp_all add: example_request_def example_handler_def Header_Get_def)
  have c': "webhook_ConstructEventWithOptions ?X (example_payload ?ty (example_object []))
             ''t=1,v1=5257a869'' ''whsec_test'' True = Inr ?event"
    by (simp add: example_deps_def)
  have c: "webhook_ConstructEventWithOptions ?X (Bytes (Body ?r))
             (Header_Get ?r ''Stripe-Signature'')
             (StripeEndpointSecret (Subscriptions (config ?h))) True = Inr ?event"
    unfolding d by (rule c')
  have e: "Event_Type ?event \<in> {''customer.subscription.created'',
             ''customer.subscription.updated'', ''customer.subscription.deleted''}"
    by simp
  have f: "Event_Data ?event = Some \<lparr>Raw = example_object []\<rparr>"
    by simp
  have g: "json_Unmarshal ?X (Raw \<lparr>Raw = example_object []\<rparr>) = Inr example_subscription"
    by (simp add: example_deps_def)
  have i: "Subscription_Customer example_subscription =
             Some \<lparr>Customer_ID = ''cus_1'', Customer_Email = []\<rparr>"
    by (simp add: example_subscription_def)
  have j: "stripeCustomer_Get ?X (Customer_ID \<lparr>Customer_ID = ''cus_1'', Customer_Email = []\<rparr>) =
             Inr (example_customer ''cus_1'')"
    by (simp add: example_deps_def)
  note t = PostWebhook_recognized_event [OF a b c e f g i j]
  from a c' t show ?thesis
    by blast
qed

text \<open>
  Claim C6 says that a request whose signature verifies is answered with 200, or with 400
  when decoding the subscription or fetching the customer fails. The run below is a
  request whose signature verifies, for an event of type \<open>customer.subscription.updated\<close>
  whose object decodes without error to a subscription with no customer:
  \<open>subscription.Customer\<close> is nil, \<open>subscription.Customer.ID\<close> panics, and the handler
  writes no status at all.
\<close>

theorem PostWebhook_subscription_without_customer:
  "webhook_ConstructEventWithOptions
     (example_deps ''customer.subscription.updated'' (example_object [])
        \<lparr>Subscription_ID = ''sub_1'', Subscription_Customer = None\<rparr>)
     (example_payload ''customer.subscription.updated'' (example_object []))
     ''t=1,v1=5257a869'' ''whsec_test'' True =
    Inr \<lparr>Event_Type = ''customer.subscription.updated'',
         Event_Data = Some \<lparr>Raw = example_object []\<rparr>\<rparr>
   \<and> json_Unmarshal
        (example_deps ''customer.subscription.updated'' (example_object [])
           \<lparr>Subscription_ID = ''sub_1'', Subscription_Customer = None\<rparr>)
        (example_object []) =
       Inr \<lparr>Subscription_ID = ''sub_1'', Subscription_Customer = None\<rparr>
   \<and> PostWebhook
        (example_deps ''customer.subscription.updated'' (example_object [])
           \<lparr>Subscription_ID = ''sub_1'', Subscription_Customer = None\<rparr>)
        (example_handler [])
        (example_request []
           (example_payload ''customer.subscription.updated'' (example_object []))) =
       ([ConstructEvent (example_payload ''customer.subscription.updated'' (example_object []))
           ''t=1,v1=5257a869'' ''whsec_test'',
         JsonUnmarshal (example_object [])],
        Panicked)
   \<and> status_of (fst (PostWebhook
        (example_deps ''customer.subscription.updated'' (example_object [])
           \<lparr>Subscription_ID = ''sub_1'', Subscription_Customer = None\<rparr>)
        (example_handler [])
        (example_request []
           (example_payload ''customer.subscription.updated'' (example_object []))))) = None"
proof -
  let ?ty = "''customer.subscription.updated''"
  let ?sub = "\<lparr>Subscription_ID = ''sub_1'', Subscription_Customer = None\<rparr>"
  let ?X = "example_deps ?ty (example_object []) ?sub"
  let ?h = "example_handler []"
  let ?r = "example_request [] (example_payload ?ty (example_object []))"
  let ?event = "\<lparr>Event_Type = ?ty, Event_Data = Some \<lparr>Raw = example_object []\<rparr>\<rparr>"
  have a: "length (Bytes (Body ?r)) \<le> 65536"
    by (simp add: example_request_def example_payload_def example_object_def quoted_def)
  have b: "ReadErr (Body ?r) = None"
    by (simp add: example_request_def)
  have d: "Bytes (Body ?r) = example_payload ?ty (example_object [])"
    "Header_Get ?r ''Stripe-Signature'' = ''t=1,v1=5257a869''"
    "StripeEndpointSecret (Subscriptions (config ?h)) = ''whsec_test''"
    by (simp_all add: example_request_def example_handler_def Header_Get_def)
  have c': "webhook_ConstructEventWithOptions ?X (example_payload ?ty (example_object []))
             ''t=1,v1=5257a869'' ''whsec_test'' True = Inr ?event"
    by (simp add: example_deps_def)
  have c: "webhook_ConstructEventWithOptions ?X (Bytes (Body ?r))
             (Header_Get ?r ''Stripe-Signature'')
             (StripeEndpointSecret (Subscriptions (config ?h))) True = Inr ?event"
    unfolding d by (rule c')
  have g: "json_Unmarshal ?X (example_object []) = Inr ?sub"
    by (simp add: example_deps_def)
  have ty: "recognized_type (Event_Type ?event)"
    by (simp add: recognized_type_def)
  have hp: "handleParseSubscription ?X ?event = ([JsonUnmarshal (example_object [])], NilDeref)"
    by (simp add: handleParseSubscription_def g)
  have run: "PostWebhook ?X ?h ?r =
       ([ConstructEvent (example_payload ?ty (example_object []))
           ''t=1,v1=5257a869'' ''whsec_test'',
         JsonUnmarshal (example_object [])],
        Panicked)"
    unfolding PostWebhook_verified [OF a b c] d by (simp only: ty hp Let_def if_True) simp
  have st: "status_of (fst (PostWebhook ?X ?h ?r)) = None"
    unfolding run by simp
  from c' g run st show ?thesis
    by (intro conjI)
qed

text \<open>
  Claim C7. For an event of any other type, \<open>PostWebhook\<close> logs one warning and answers
  200; it decodes nothing and sends no request to the provider.
\<close>

theorem PostWebhook_unrecognized_event:
  assumes "length (Bytes (Body r)) \<le> 65536" and "ReadErr (Body r) = None"
    and "webhook_ConstructEventWithOptions X (Bytes (Body r)) (Header_Get r ''Stripe-Signature'')
           (StripeEndpointSecret (Subscriptions (config h))) True = Inr event"
    and "Event_Type event \<notin> {''customer.subscription.created'', ''customer.subscription.updated'',
           ''customer.subscription.deleted''}"
  shows "PostWebhook X h r =
           ([ConstructEvent (Bytes (Body r)) (Header_Get r ''Stripe-Signature'')
               (StripeEndpointSecret (Subscriptions (config h))),
             LogWarn ''got stripe event '%s' with no handler defined'' [Event_Type event],
             WriteHeader StatusOK],
            Returned)
         \<and> status_of (fst (PostWebhook X h r)) = Some 200
         \<and> filter is_json_parse (fst (PostWebhook X h r)) = []
         \<and> filter is_provider_call (fst (PostWebhook X h r)) = []"
proof -
  have ty: "\<not> recognized_type (Event_Type event)"
    using assms(4) recognized_type_iff [of "Event_Type event"] by blast
  have run: "PostWebhook X h r =
           ([ConstructEvent (Bytes (Body r)) (Header_Get r ''Stripe-Signature'')
               (StripeEndpointSecret (Subscriptions (config h))),
             LogWarn ''got stripe event '%s' with no handler defined'' [Event_Type event],
             WriteHeader StatusOK],
            Returned)"
    unfolding PostWebhook_verified [OF assms(1-3)]
    by (simp add: ty)
  show ?thesis
    unfolding run by simp
qed

text \<open>The theorem at an event of type \<open>invoice.paid\<close>.\<close>

theorem PostWebhook_unrecognized_event_witness:
  "length (Bytes (Body (example_request []
      (example_payload ''invoice.paid'' (example_object []))))) \<le> 65536
   \<and> webhook_ConstructEventWithOptions
        (example_deps ''invoice.paid'' (example_object []) example_subscription)
        (example_payload ''invoice.paid'' (example_object []))
        ''t=1,v1=5257a869'' ''whsec_test'' True =
       Inr \<lparr>Event_Type = ''invoice.paid'', Event_Data = Some \<lparr>Raw = example_object []\<rparr>\<rparr>
   \<and> PostWebhook (example_deps ''invoice.paid'' (example_object []) example_subscription)
        (example_handler [])
        (example_request [] (example_payload ''invoice.paid'' (example_object []))) =
       ([ConstructEvent (example_payload ''invoice.paid'' (example_object []))
           ''t=1,v1=5257a869'' ''whsec_test'',
         LogWarn ''got stripe event '%s' with no handler defined'' [''invoice.paid''],
         WriteHeader 200],
        Returned)"
proof -
  let ?ty = "''invoice.paid''"
  let ?X = "example_deps ?ty (example_object []) example_subscription"
  let ?h = "example_handler []"
  let ?r = "example_request [] (example_payload ?ty (example_object []))"
  let ?event = "\<lparr>Event_Type = ?ty, Event_Data = Some \<lparr>Raw = example_object []\<rparr>\<rparr>"
  have a: "length (Bytes (Body ?r)) \<le> 65536"
    by (simp add: example_request_def example_payload_def example_object_def quoted_def)
  have b: "ReadErr (Body ?r) = None"
    by (simp add: example_request_def)
  have d: "Bytes (Body ?r) = example_payload ?ty (example_object [])"
    "Header_Get ?r ''Stripe-Signature'' = ''t=1,v1=5257a869''"
    "StripeEndpointSecret (Subscriptions (config ?h)) = ''whsec_test''"
    by (simp_all add: example_request_def example_handler_def Header_Get_def)
  have c': "webhook_ConstructEventWithOptions ?X (example_payload ?ty (example_object []))
             ''t=1,v1=5257a869'' ''whsec_test'' True = Inr ?event"
    by (simp add: example_deps_def)
  have c: "webhook_ConstructEventWithOptions ?X (Bytes (Body ?r))
             (Header_Get ?r ''Stripe-Signature'')
             (StripeEndpointSecret (Subscriptions (config ?h))) True = Inr ?event"
    unfolding d by (rule c')
  have e: "Event_Type ?event \<notin> {''customer.subscription.created'',
             ''customer.subscription.updated'', ''customer.subscription.deleted''}"
    by simp
  have ty: "Event_Type ?event = ''invoice.paid''"
    by simp
  note t = PostWebhook_unrecognized_event [OF a b c e, unfolded d ty]
  from a c' t show ?thesis
    by blast
qed

subsection \<open>Checkout\<close>

text \<open>
  Claim C3. For a principal whose e-mail address is empty, \<open>PostCheckout\<close> and
  \<open>PostPortal\<close> each answer with a redirect (302) to the settings page with an \<open>error\<close>
  query parameter, and neither sends a request to the billing provider. (In development
  mode the templates are reloaded first.)
\<close>

theorem PostCheckout_PostPortal_empty_email:
  assumes "Principal r = Some user" and "Email user = []"
  shows "PostCheckout X h r =
           (dev_templates h @
            [Redirect (BasePath (Server (config h)) @
               ''/settings?error=missing e-mail address#subscription'') StatusFound],
            Returned)
         \<and> PostPortal X h r =
           (dev_templates h @
            [Redirect (BasePath (Server (config h)) @
               ''/settings?error=no subscription found with your e-mail address, please contact us!#subscription'')
               StatusFound],
            Returned)
         \<and> filter is_provider_call (fst (PostCheckout X h r)) = []
         \<and> filter is_provider_call (fst (PostPortal X h r)) = []"
proof -
  have c: "PostCheckout X h r =
           (dev_templates h @
            [Redirect (BasePath (Server (config h)) @
               ''/settings?error=missing e-mail address#subscription'') StatusFound],
            Returned)"
    using assms by (simp add: PostCheckout_def settings_error_format_def)
  have p: "PostPortal X h r =
           (dev_templates h @
            [Redirect (BasePath (Server (config h)) @
               ''/settings?error=no subscription found with your e-mail address, please contact us!#subscription'')
               StatusFound],
            Returned)"
    using assms by (simp add: PostPortal_def settings_error_format_def)
  show ?thesis
    unfolding c p by (simp add: dev_templates_no_provider_call)
qed

text \<open>The theorem at a principal without an e-mail address.\<close>

theorem PostCheckout_PostPortal_empty_email_witness:
  "Principal (example_request [] []) = Some \<lparr>Email = []\<rparr>
   \<and> PostCheckout (example_deps [] [] example_subscription) (example_handler []) (example_request [] []) =
       ([Redirect ''/settings?error=missing e-mail address#subscription'' 302], Returned)
   \<and> PostPortal (example_deps [] [] example_subscription) (example_handler []) (example_request [] []) =
       ([Redirect ''/settings?error=no subscription found with your e-mail address, please contact us!#subscription'' 302],
        Returned)"
proof -
  let ?X = "example_deps [] [] example_subscription"
  let ?h = "example_handler []"
  let ?r = "example_request [] []"
  have a: "Principal ?r = Some \<lparr>Email = []\<rparr>"
    by (simp add: example_request_def)
  have b: "Email \<lparr>Email = []\<rparr> = []"
    by simp
  have d: "dev_templates ?h = []" "BasePath (Server (config ?h)) = []"
    by (simp_all add: dev_templates_def example_handler_def)
  note t = PostCheckout_PostPortal_empty_email [OF a b, of ?X ?h, unfolded d, simplified]
  from a t show ?thesis
    by blast
qed

text \<open>
  Claim C10. For a principal with a non-empty e-mail address and a request whose form
  does not parse, \<open>PostCheckout\<close> redirects (302) to the settings page with the error
  parameter \<open>missing form values\<close> and sends no request to the billing provider.
\<close>

theorem PostCheckout_form_parse_failure:
  assumes "Principal r = Some user" and "Email user \<noteq> []" and "ParseForm X r = Some err"
  shows "PostCheckout X h r =
           (dev_templates h @
            [Redirect (BasePath (Server (config h)) @
               ''/settings?error=missing form values#subscription'') StatusFound],
            Returned)
         \<and> filter is_provider_call (fst (PostCheckout X h r)) = []"
proof -
  have c: "PostCheckout X h r =
           (dev_templates h @
            [Redirect (BasePath (Server (config h)) @
               ''/settings?error=missing form values#subscription'') StatusFound],
            Returned)"
    using assms by (simp add: PostCheckout_def settings_error_format_def)
  show ?thesis
    unfolding c by (simp add: dev_templates_no_provider_call)
qed

text \<open>The theorem at a request whose form the parser refuses.\<close>

theorem PostCheckout_form_parse_failure_witness:
  "Principal (example_request ''a@b.com'' ''%'') = Some \<lparr>Email = ''a@b.com''\<rparr>
   \<and> PostCheckout
        ((example_deps [] [] example_subscription)
           \<lparr>ParseForm := (\<lambda>r. Some ''invalid URL escape'')\<rparr>)
        (example_handler []) (example_request ''a@b.com'' ''%'') =
       ([Redirect ''/settings?error=missing form values#subscription'' 302], Returned)"
proof -
  let ?X = "(example_deps [] [] example_subscription)\<lparr>ParseForm := (\<lambda>r. Some ''invalid URL escape'')\<rparr>"
  let ?h = "example_handler []"
  let ?r = "example_request ''a@b.com'' ''%''"
  have a: "Principal ?r = Some \<lparr>Email = ''a@b.com''\<rparr>"
    by (simp add: example_request_def)
  have b: "Email \<lparr>Email = ''a@b.com''\<rparr> \<noteq> []"
    by simp
  have c: "ParseForm ?X ?r = Some ''invalid URL escape''"
    by simp
  have d: "dev_templates ?h = []" "BasePath (Server (config ?h)) = []"
    by (simp_all add: dev_templates_def example_handler_def)
  note t = PostCheckout_form_parse_failure [OF a b c, of ?h, unfolded d, simplified]
  from a t show ?thesis
    by blast
qed

text \<open>
  Claim C4, as amended. For a principal with e-mail address \<open>a@b.com\<close> whose form parses,
  with the price identifier \<open>price_123\<close> and the public URL \<open>https://x.test\<close> configured,
  \<open>PostCheckout\<close> sends one request to the provider: a checkout session in subscription
  mode with the single line item \<open>price_123\<close>, whose success URL is the public URL, then
  the configured base path, then \<open>/subscription/success\<close>, and whose cancel URL is the
  public URL, then the base path, then \<open>/subscription/cancel\<close>.
\<close>

theorem PostCheckout_scenario_request:
  assumes "Principal r = Some user" and "Email user = ''a@b.com''"
    and "ParseForm X r = None"
    and "StandardPriceId (Subscriptions (config h)) = ''price_123''"
    and "PublicUrl (Server (config h)) = ''https://x.test''"
  shows "filter is_provider_call (fst (PostCheckout X h r)) =
           [CheckoutSessionNew
              \<lparr>Mode = ''subscription'',
               LineItems = [\<lparr>Price = ''price_123'', Quantity = 1\<rparr>],
               CustomerEmail = ''a@b.com'',
               ClientReferenceID = ''a@b.com'',
               SuccessURL = ''https://x.test'' @ BasePath (Server (config h)) @ ''/subscription/success'',
               CancelURL = ''https://x.test'' @ BasePath (Server (config h)) @ ''/subscription/cancel''\<rparr>]"
  using assms
  by (simp add: PostCheckout_def Let_def dev_templates_no_provider_call split: sum.split)

text \<open>With an empty base path the two URLs are \<open>https://x.test/subscription/success\<close> and
  \<open>https://x.test/subscription/cancel\<close>.\<close>

theorem PostCheckout_scenario_request_witness:
  "Principal (example_request ''a@b.com'' []) = Some \<lparr>Email = ''a@b.com''\<rparr>
   \<and> ParseForm (example_deps [] [] example_subscription) (example_request ''a@b.com'' []) = None
   \<and> StandardPriceId (Subscriptions (config (example_handler []))) = ''price_123''
   \<and> PublicUrl (Server (config (example_handler []))) = ''https://x.test''
   \<and> BasePath (Server (config (example_handler []))) = []
   \<and> filter is_provider_call
       (fst (PostCheckout (example_deps [] [] example_subscription) (example_handler [])
          (example_request ''a@b.com'' []))) =
       [CheckoutSessionNew
          \<lparr>Mode = ''subscription'',
           LineItems = [\<lparr>Price = ''price_123'', Quantity = 1\<rparr>],
           CustomerEmail = ''a@b.com'',
           ClientReferenceID = ''a@b.com'',
           SuccessURL = ''https://x.test/subscription/success'',
           CancelURL = ''https://x.test/subscription/cancel''\<rparr>]"
proof -
  let ?X = "example_deps [] [] example_subscription"
  let ?h = "example_handler []"
  let ?r = "example_request ''a@b.com'' []"
  have a: "Principal ?r = Some \<lparr>Email = ''a@b.com''\<rparr>"
    by (simp add: example_request_def)
  have b: "Email \<lparr>Email = ''a@b.com''\<rparr> = ''a@b.com''"
    by simp
  have c: "ParseForm ?X ?r = None"
    by (simp add: example_deps_def)
  have d: "StandardPriceId (Subscriptions (config ?h)) = ''price_123''"
    by (simp add: example_handler_def)
  have e: "PublicUrl (Server (config ?h)) = ''https://x.test''"
    by (simp add: example_handler_def)
  have f: "BasePath (Server (config ?h)) = []"
    by (simp add: example_handler_def)
  note t = PostCheckout_scenario_request [OF a b c d e, unfolded f, simplified]
  from a c d e f t show ?thesis
    by (intro conjI) simp_all
qed

text \<open>With the base path \<open>/wakapi\<close> the same principal, price and public URL give other
  URLs than those of claim C4.\<close>

theorem PostCheckout_scenario_base_path_counterexample:
  "Principal (example_request ''a@b.com'' []) = Some \<lparr>Email = ''a@b.com''\<rparr>
   \<and> StandardPriceId (Subscriptions (config (example_handler ''/wakapi''))) = ''price_123''
   \<and> PublicUrl (Server (config (example_handler ''/wakapi''))) = ''https://x.test''
   \<and> filter is_provider_call
       (fst (PostCheckout (example_deps [] [] example_subscription) (example_handler ''/wakapi'')
          (example_request ''a@b.com'' []))) =
       [CheckoutSessionNew
          \<lparr>Mode = ''subscription'',
           LineItems = [\<lparr>Price = ''price_123'', Quantity = 1\<rparr>],
           CustomerEmail = ''a@b.com'',
           ClientReferenceID = ''a@b.com'',
           SuccessURL = ''https://x.test/wakapi/subscription/success'',
           CancelURL = ''https://x.test/wakapi/subscription/cancel''\<rparr>]
   \<and> ''https://x.test/wakapi/subscription/success'' \<noteq> ''https://x.test/subscription/success''
   \<and> ''https://x.test/wakapi/subscription/cancel'' \<noteq> ''https://x.test/subscription/cancel''"
  by (simp add: PostCheckout_def Let_def example_request_def example_handler_def
      example_deps_def dev_templates_def)

subsection \<open>Billing portal\<close>

text \<open>
  Claim C8. For a principal with an e-mail address, \<open>PostPortal\<close> first searches the
  provider's customers with the query \<open>email:"<address>"\<close>. When the search succeeds and
  finds customers, the portal session is requested for the first of them, whatever the
  others are. When the search fails or finds none, the handler redirects (302) to the
  settings page with an \<open>error\<close> parameter and requests no portal session.
\<close>

theorem PostPortal_customer_lookup:
  assumes "Principal r = Some user" and "Email user \<noteq> []"
  shows "let query = ''email:'' @ [CHR 0x22] @ Email user @ [CHR 0x22];
             results = stripeCustomer_Search X query;
             not_found = Redirect (BasePath (Server (config h)) @
               ''/settings?error=no subscription found with your e-mail address, please contact us!#subscription'')
               StatusFound
         in filter is_provider_call (fst (PostPortal X h r)) =
              CustomerSearch query #
              (case Iter_err results of
                 Some err \<Rightarrow> []
               | None \<Rightarrow>
                   (case Iter_values results of
                      [] \<Rightarrow> []
                    | c # cs \<Rightarrow>
                        [PortalSessionNew \<lparr>PortalCustomer = Customer_ID c,
                           ReturnURL = PublicUrl (Server (config h))\<rparr>]))
            \<and> (Iter_err results \<noteq> None \<or> Iter_values results = [] \<longrightarrow>
                 PostPortal X h r = (dev_templates h @ [CustomerSearch query, not_found], Returned))"
  using assms
  by (auto simp add: PostPortal_def findStripeCustomerByEmail_def Iter_Next_def Let_def
      settings_error_format_def dev_templates_no_provider_call
      split: option.split list.split sum.split)

text \<open>The theorem at a search that finds two customers, and at a search that finds none.\<close>

theorem PostPortal_customer_lookup_witness:
  "Principal (example_request ''a@b.com'' []) = Some \<lparr>Email = ''a@b.com''\<rparr>
   \<and> stripeCustomer_Search (example_deps [] [] example_subscription)
        (''email:'' @ quoted ''a@b.com'') =
       \<lparr>Iter_err = None,
        Iter_values = [example_customer ''cus_1'', example_customer ''cus_2'']\<rparr>
   \<and> filter is_provider_call
        (fst (PostPortal (example_deps [] [] example_subscription) (example_handler [])
           (example_request ''a@b.com'' []))) =
       [CustomerSearch (''email:'' @ quoted ''a@b.com''),
        PortalSessionNew \<lparr>PortalCustomer = ''cus_1'', ReturnURL = ''https://x.test''\<rparr>]
   \<and> PostPortal
        ((example_deps [] [] example_subscription)
           \<lparr>stripeCustomer_Search := (\<lambda>q. \<lparr>Iter_err = None, Iter_values = []\<rparr>)\<rparr>)
        (example_handler []) (example_request ''a@b.com'' []) =
       ([CustomerSearch (''email:'' @ quoted ''a@b.com''),
         Redirect ''/settings?error=no subscription found with your e-mail address, please contact us!#subscription'' 302],
        Returned)"
proof -
  let ?X = "example_deps [] [] example_subscription"
  let ?Y = "?X\<lparr>stripeCustomer_Search := (\<lambda>q. \<lparr>Iter_err = None, Iter_values = []\<rparr>)\<rparr>"
  let ?h = "example_handler []"
  let ?r = "example_request ''a@b.com'' []"
  have a: "Principal ?r = Some \<lparr>Email = ''a@b.com''\<rparr>"
    by (simp add: example_request_def)
  have b: "Email \<lparr>Email = ''a@b.com''\<rparr> \<noteq> []"
    by simp
  have s: "stripeCustomer_Search ?X (''email:'' @ quoted ''a@b.com'') =
       \<lparr>Iter_err = None,
        Iter_values = [example_customer ''cus_1'', example_customer ''cus_2'']\<rparr>"
    by (simp add: example_deps_def)
  have d: "dev_templates ?h = []" "BasePath (Server (config ?h)) = []"
    "PublicUrl (Server (config ?h)) = ''https://x.test''"
    by (simp_all add: dev_templates_def example_handler_def)
  have found: "filter is_provider_call (fst (PostPortal ?X ?h ?r)) =
       [CustomerSearch (''email:'' @ quoted ''a@b.com''),
        PortalSessionNew \<lparr>PortalCustomer = ''cus_1'', ReturnURL = ''https://x.test''\<rparr>]"
    using PostPortal_customer_lookup [OF a b, of ?X ?h] s
    by (simp add: Let_def d quoted_def example_customer_def)
  have missing: "PostPortal ?Y ?h ?r =
       ([CustomerSearch (''email:'' @ quoted ''a@b.com''),
         Redirect ''/settings?error=no subscription found with your e-mail address, please contact us!#subscription'' 302],
        Returned)"
    using PostPortal_customer_lookup [OF a b, of ?Y ?h]
    by (simp add: Let_def d quoted_def)
  from a s found missing show ?thesis
    by (intro conjI)
qed

subsection \<open>The confirmation redirects\<close>

text \<open>
  Claim C9, as amended. \<open>GetCheckoutSuccess\<close> and \<open>GetCheckoutCancel\<close> read nothing of the
  request and do nothing but redirect (302) to a URL fixed by the configured base path.
  The URL of the success endpoint carries the query parameter \<open>success\<close> with a fixed
  message; the URL of the cancel endpoint is the settings page with no query parameter of
  its own.
\<close>

theorem redirect_endpoints:
  "GetCheckoutSuccess h r =
     ([Redirect (BasePath (Server (config h)) @
         ''/settings?success=you have successfully subscribed to Wakapi!#subscription'')
         StatusFound],
      Returned)
   \<and> GetCheckoutCancel h r =
     ([Redirect (BasePath (Server (config h)) @ ''/settings#subscription'') StatusFound],
      Returned)
   \<and> has_query (BasePath (Server (config h)) @
         ''/settings?success=you have successfully subscribed to Wakapi!#subscription'')
   \<and> has_query (BasePath (Server (config h)) @ ''/settings#subscription'') =
       has_query (BasePath (Server (config h)))"
  by (simp add: GetCheckoutSuccess_def GetCheckoutCancel_def has_query_def)

text \<open>The URL of the cancel endpoint, with an empty base path: it has no query part, so
  no cancel flag, against claim C9.\<close>

theorem GetCheckoutCancel_no_query_counterexample:
  "GetCheckoutCancel (example_handler []) (example_request [] []) =
     ([Redirect ''/settings#subscription'' 302], Returned)
   \<and> location_of (fst (GetCheckoutCancel (example_handler []) (example_request [] []))) =
       Some ''/settings#subscription''
   \<and> \<not> has_query ''/settings#subscription''"
  by (simp add: GetCheckoutCancel_def example_handler_def has_query_def)

end
